theory Spec2Isabelle
  imports Main
begin

section \<open>Python string operations used by assistant.py\<close>

text \<open>
  Utterances are Python \<open>str\<close> values. They are modelled as \<open>string\<close>, each \<open>char\<close> read
  as one code point below 256; text with code points beyond that range is outside the model.
  \<open>isspace\<close> is Python's \<open>str.isspace\<close> on that range: it is the set of characters that
  \<open>str.split()\<close> and \<open>str.strip()\<close> (both called without arguments) treat as whitespace.
\<close>

definition isspace :: "char \<Rightarrow> bool" where
  "isspace c = (c \<in> set [CHR 0x09, CHR 0x0A, CHR 0x0B, CHR 0x0C, CHR 0x0D,
                        CHR 0x1C, CHR 0x1D, CHR 0x1E, CHR 0x1F, CHR 0x20,
                        CHR 0x85, CHR 0xA0])"

text \<open>\<open>text.startswith(p)\<close>.\<close>

fun startswith :: "string \<Rightarrow> string \<Rightarrow> bool" where
  "startswith text [] = True"
| "startswith [] (p # ps) = False"
| "startswith (c # cs) (p # ps) = (c = p \<and> startswith cs ps)"

text \<open>\<open>sub in text\<close> on strings: \<open>sub\<close> occurs in \<open>text\<close> as a contiguous substring.\<close>

fun contains :: "string \<Rightarrow> string \<Rightarrow> bool" where
  "contains [] sub = (sub = [])"
| "contains (c # cs) sub = (startswith (c # cs) sub \<or> contains cs sub)"

text \<open>
  \<open>text.replace(old, new)\<close>: every non-overlapping occurrence of \<open>old\<close>, found from left to
  right, is replaced. With an empty \<open>old\<close> Python inserts \<open>new\<close> before every character and
  at the end.
\<close>

function replace :: "string \<Rightarrow> string \<Rightarrow> string \<Rightarrow> string" where
  "replace [] old new = (if old = [] then new else [])"
| "replace (c # cs) old new =
     (if old = [] then new @ c # replace cs old new
      else if startswith (c # cs) old then new @ replace (drop (length old) (c # cs)) old new
      else c # replace cs old new)"
  by pat_completeness auto
termination
  by (relation "measure (\<lambda>(text, old, new). length text)") (auto simp: neq_Nil_conv)

text \<open>\<open>text.strip()\<close>: leading and trailing whitespace removed.\<close>

definition strip :: "string \<Rightarrow> string" where
  "strip s = rev (dropWhile isspace (rev (dropWhile isspace s)))"

text \<open>
  \<open>text.split()\<close>: the maximal runs of non-whitespace characters, in order. \<open>split_from cur\<close>
  scans the text with the token read so far in \<open>cur\<close>.
\<close>

fun split_from :: "string \<Rightarrow> string \<Rightarrow> string list" where
  "split_from cur [] = (if cur = [] then [] else [cur])"
| "split_from cur (c # cs) =
     (if isspace c then (if cur = [] then split_from [] cs else cur # split_from [] cs)
      else split_from (cur @ [c]) cs)"

definition split :: "string \<Rightarrow> string list" where
  "split text = split_from [] text"

text \<open>
  \<open>text.split(sep, 1)\<close> for a non-empty \<open>sep\<close>: the text before the first occurrence of
  \<open>sep\<close> and the text after it, or the whole text alone when \<open>sep\<close> does not occur.
\<close>

fun split1 :: "string \<Rightarrow> string \<Rightarrow> string list" where
  "split1 [] sep = (if sep = [] then [[], []] else [[]])"
| "split1 (c # cs) sep =
     (if startswith (c # cs) sep then [[], drop (length sep) (c # cs)]
      else (case split1 cs sep of
              [whole] \<Rightarrow> [c # whole]
            | before # rest \<Rightarrow> (c # before) # rest
            | [] \<Rightarrow> []))"

text \<open>\<open>words.index(x)\<close>: the position of the first element equal to \<open>x\<close>; \<open>None\<close> is ValueError.\<close>

fun index :: "'a list \<Rightarrow> 'a \<Rightarrow> nat option" where
  "index [] x = None"
| "index (y # ys) x = (if y = x then Some 0 else map_option Suc (index ys x))"

text \<open>\<open>" ".join(words)\<close>.\<close>

fun join :: "string list \<Rightarrow> string" where
  "join [] = []"
| "join [w] = w"
| "join (w # v # ws) = w @ '' '' @ join (v # ws)"

section \<open>The world the assistant acts on\<close>

text \<open>
  Everything the program does besides computing on strings is an effect on the outside:
  speaking, listening, opening a browser, starting a process, calling a service. Each such
  call is recorded as an \<open>event\<close> in the order in which it happens.

  \<open>search_wikipedia\<close>, \<open>get_weather\<close> and \<open>send_email\<close> talk to Wikipedia, to the weather
  service and to the SMTP server, report through \<open>speak\<close> and catch every exception
  themselves, so they always return to their caller. Their bodies are not modelled; a call
  of one of them is recorded with its arguments.
\<close>

datatype event =
    Speak string
  | Listen nat nat
  | WebbrowserOpen string
  | Popen string
  | PopenArgv "string list"
  | SubprocessCall string
  | SearchWikipedia string
  | GetWeather string
  | SendEmail string string string

datatype error = IndexError | OSError

text \<open>
  How a call of \<open>parse_and_execute\<close> ends: it returns, it leaves the process through
  \<open>sys.exit(code)\<close>, or an exception escapes from it.
\<close>

datatype status = Returned | Exited int | Raised error

text \<open>
  \<open>heard k\<close> is what the \<open>k\<close>-th call of \<open>listen\<close> returns, counted from 0 (\<open>None\<close> is a
  timeout, unintelligible audio or a service error), and \<open>listened\<close> counts the calls made
  so far. \<open>clock_time\<close> and \<open>clock_date\<close> are the current time and date as \<open>strftime\<close>
  formats them, \<open>platform\<close> is \<open>sys.platform\<close>, \<open>popen_fails\<close> says whether
  \<open>subprocess.Popen\<close> raises, and \<open>call_fails\<close> is the message of the exception that
  \<open>subprocess.call\<close> raises, if any.
\<close>

record world =
  heard :: "nat \<Rightarrow> string option"
  listened :: nat
  clock_time :: string
  clock_date :: string
  platform :: string
  popen_fails :: bool
  call_fails :: "string option"
  trace :: "event list"

definition emit :: "event \<Rightarrow> world \<Rightarrow> world" where
  "emit e w = w\<lparr>trace := trace w @ [e]\<rparr>"

definition speak :: "string \<Rightarrow> world \<Rightarrow> world" where
  "speak text w = emit (Speak text) w"

definition listen :: "nat \<Rightarrow> nat \<Rightarrow> world \<Rightarrow> string option \<times> world" where
  "listen timeout phrase_time_limit w =
     (heard w (listened w),
      emit (Listen timeout phrase_time_limit) (w\<lparr>listened := Suc (listened w)\<rparr>))"

section \<open>Helpers\<close>

definition tell_time :: "world \<Rightarrow> world" where
  "tell_time w = speak (''The time is '' @ clock_time w) w"

definition tell_date :: "world \<Rightarrow> world" where
  "tell_date w = speak (''Today is '' @ clock_date w) w"

definition search_wikipedia :: "string \<Rightarrow> world \<Rightarrow> world" where
  "search_wikipedia query w = emit (SearchWikipedia query) w"

definition open_website :: "string \<Rightarrow> world \<Rightarrow> world" where
  "open_website url w =
     (let url' = (if \<not> startswith url ''http'' then ''https://'' @ url else url)
      in emit (WebbrowserOpen url') (speak (''Opening '' @ url') w))"

record app_commands =
  win :: "string option"
  mac :: "string option"
  linux :: "string option"

definition apps :: "(string \<times> app_commands) list" where
  "apps =
     [(''notepad'', \<lparr>win = Some ''notepad.exe'', mac = None, linux = Some ''gedit''\<rparr>),
      (''calculator'', \<lparr>win = Some ''calc.exe'', mac = Some ''open -a Calculator'',
                        linux = Some ''gnome-calculator''\<rparr>),
      (''code'', \<lparr>win = Some (''C:'' @ [CHR 0x5C] @ ''Users'' @ [CHR 0x5C] @ ''%USERNAME%''
                              @ [CHR 0x5C] @ ''AppData'' @ [CHR 0x5C] @ ''Local'' @ [CHR 0x5C]
                              @ ''Programs'' @ [CHR 0x5C] @ ''Microsoft VS Code'' @ [CHR 0x5C]
                              @ ''Code.exe''),
                  mac = Some (''open -a 'Visual Studio Code'' @ [CHR 0x27]),
                  linux = Some ''code''\<rparr>)]"

text \<open>
  \<open>open_app\<close>. A command is used only when it is truthy (present and not the empty string).
  On Windows \<open>Popen\<close> is called outside any \<open>try\<close>, so its exception escapes; elsewhere a
  failing \<open>Popen\<close> falls back to \<open>subprocess.call\<close>, whose exception is reported by speech.
\<close>

definition truthy :: "string option \<Rightarrow> bool" where
  "truthy v = (case v of None \<Rightarrow> False | Some s \<Rightarrow> s \<noteq> [])"

definition or_else :: "string option \<Rightarrow> string \<Rightarrow> string" where
  "or_else v d = (case v of None \<Rightarrow> d | Some s \<Rightarrow> if s = [] then d else s)"

definition open_app :: "string \<Rightarrow> world \<Rightarrow> status \<times> world" where
  "open_app app_key w =
     (case map_of apps app_key of
        None \<Rightarrow>
          (Returned, speak (''I don't have a mapping for '' @ app_key
                            @ ''. You can add it to the apps dict.'') w)
      | Some entry \<Rightarrow>
          if startswith (platform w) ''win'' \<and> truthy (win entry) then
            (let w1 = emit (Popen (or_else (win entry) [])) (speak (''Opening '' @ app_key) w)
             in if popen_fails w then (Raised OSError, w1) else (Returned, w1))
          else
            (let cmd = (if startswith (platform w) ''win'' then win entry
                        else if startswith (platform w) ''darwin'' then mac entry
                        else linux entry)
             in if truthy cmd then
                  (let w1 = emit (PopenArgv (split (or_else cmd [])))
                              (speak (''Opening '' @ app_key) w)
                   in if popen_fails w then
                        (let w2 = emit (SubprocessCall (or_else cmd [])) w1
                         in case call_fails w of
                              None \<Rightarrow> (Returned, w2)
                            | Some e2 \<Rightarrow>
                                (Returned, speak (''Could not open the application: '' @ e2) w2))
                      else (Returned, w1))
                else
                  (Returned, speak (''No command configured for your OS; please update ''
                                    @ ''the apps mapping in the script.'') w)))"

definition get_weather :: "string \<Rightarrow> world \<Rightarrow> world" where
  "get_weather city w = emit (GetWeather city) w"

definition send_email :: "string \<Rightarrow> string \<Rightarrow> string \<Rightarrow> world \<Rightarrow> world" where
  "send_email to_addr subject body w = emit (SendEmail to_addr subject body) w"

section \<open>Command parsing\<close>

text \<open>
  The loop of the open-application branch (lines 209 to 213): the first prefix that occurs
  in the text decides. \<open>text.split(prefix, 1)[1]\<close> and \<open>...split()[0]\<close> raise IndexError
  when the element is missing. When no prefix of the list occurs, the loop ends and the
  function returns without having done anything.
\<close>

fun launch_loop :: "string list \<Rightarrow> string \<Rightarrow> world \<Rightarrow> status \<times> world" where
  "launch_loop [] text w = (Returned, w)"
| "launch_loop (prefix # prefixes) text w =
     (if contains text prefix then
        (case split1 text prefix of
           _ # after # _ \<Rightarrow>
             (case split (strip after) of
                [] \<Rightarrow> (Raised IndexError, w)
              | appname # _ \<Rightarrow> open_app appname w)
         | _ \<Rightarrow> (Raised IndexError, w))
      else launch_loop prefixes text w)"

text \<open>The weather branch (lines 224 to 232).\<close>

definition weather_branch :: "string \<Rightarrow> world \<Rightarrow> world" where
  "weather_branch text w =
     (let words = split text;
          prompt = speak ''Please include the city after 'in', e.g. 'weather in Delhi'.'' w
      in if ''in'' \<in> set words then
           (case index words ''in'' of
              None \<Rightarrow> prompt
            | Some idx \<Rightarrow>
                (let city = join (drop (idx + 1) words)
                 in if city \<noteq> [] then get_weather city w else prompt))
         else prompt)"

text \<open>
  The email branch (lines 236 to 251). \<open>not to_addr\<close> holds for \<open>None\<close> and for the empty
  string, \<open>x or d\<close> is \<open>d\<close> for both, and \<open>conf and "yes" in conf\<close> fails for both.
\<close>

definition says_yes :: "string option \<Rightarrow> bool" where
  "says_yes conf = (case conf of None \<Rightarrow> False | Some c \<Rightarrow> c \<noteq> [] \<and> contains c ''yes'')"

definition email_branch :: "world \<Rightarrow> world" where
  "email_branch w =
     (let (to_addr, w1) =
            listen 8 6 (speak ''Who is the recipient? Please say the email address.'' w)
      in if \<not> truthy to_addr then speak ''Recipient not provided. Cancelling.'' w1
         else
           (let (heard_subject, w2) = listen 8 8 (speak ''What is the subject?'' w1);
                subject = or_else heard_subject ''No subject'';
                (heard_body, w3) = listen 12 20 (speak ''Tell me the message.'' w2);
                body = or_else heard_body [];
                (conf, w4) =
                  listen 5 3 (speak (''Sending email to '' @ or_else to_addr [] @ '' with subject ''
                                     @ subject @ ''. Confirm by saying yes.'') w3)
            in if says_yes conf
               then send_email (or_else to_addr []) subject body w4
               else speak ''Email cancelled.'' w4))"

definition quick :: "(string \<times> string) list" where
  "quick = [(''youtube'', ''youtube.com''), (''google'', ''google.com''),
            (''gmail'', ''mail.google.com'')]"

text \<open>\<open>parse_and_execute\<close>: the chain of rules, the first one that matches wins.\<close>

definition parse_and_execute :: "string option \<Rightarrow> world \<Rightarrow> status \<times> world" where
  "parse_and_execute utterance w =
     (case utterance of
        None \<Rightarrow> (Returned, w)
      | Some text \<Rightarrow>
          if contains text ''hello'' \<or> contains text ''hi'' \<or> contains text ''hey'' then
            (Returned, speak ''Hello! How can I help you?'' w)
          else if contains text ''time'' then (Returned, tell_time w)
          else if contains text ''date'' \<or> contains text ''day'' then (Returned, tell_date w)
          else if startswith text ''open '' then
            (let target = strip (replace text ''open '' [])
             in case map_of quick target of
                  Some site \<Rightarrow> (Returned, open_website site w)
                | None \<Rightarrow> (Returned, open_website target w))
          else if contains text ''launch '' \<or> contains text ''open app ''
                  \<or> contains text ''open application'' then
            launch_loop [''launch '', ''open app '', ''open application ''] text w
          else if startswith text ''who is '' \<or> startswith text ''what is ''
                  \<or> startswith text ''tell me about '' then
            (let topic = strip (replace (replace (replace text ''who is '' []) ''what is '' [])
                                  ''tell me about '' [])
             in (Returned, search_wikipedia topic w))
          else if contains text ''weather'' then (Returned, weather_branch text w)
          else if contains text ''send email'' \<or> contains text ''send an email'' then
            (Returned, email_branch w)
          else if contains text ''quit'' \<or> contains text ''exit'' \<or> contains text ''shutdown''
                  \<or> contains text ''stop assistant'' \<or> contains text ''goodbye'' then
            (Exited 0, speak ''Goodbye!'' w)
          else
            (let w1 = speak (''I didn't catch a command. I can search the web or Wikipedia. ''
                             @ ''Searching the web for your phrase.'') w;
                 query = replace text '' '' ''+''
             in (Returned, emit (WebbrowserOpen (''https://www.google.com/search?q='' @ query)) w1)))"

section \<open>The rule chain as a classifier\<close>

text \<open>
  The branch that \<open>parse_and_execute\<close> takes, with the arguments it extracts, named after
  the intents of the specification. \<open>OpenAppNoPrefix\<close> is the open-application branch whose
  loop finds none of its prefixes, \<open>WeatherMissingCity\<close> the weather branch without a city.
\<close>

datatype intent =
    Greet
  | TellTime
  | TellDate
  | OpenWebsite string
  | OpenApp string
  | OpenAppNoPrefix
  | Encyclopedia string
  | Weather string
  | WeatherMissingCity
  | ComposeEmail
  | Exit
  | Unrecognized string

fun launch_key :: "string list \<Rightarrow> string \<Rightarrow> error + intent" where
  "launch_key [] text = Inr OpenAppNoPrefix"
| "launch_key (prefix # prefixes) text =
     (if contains text prefix then
        (case split1 text prefix of
           _ # after # _ \<Rightarrow>
             (case split (strip after) of
                [] \<Rightarrow> Inl IndexError
              | appname # _ \<Rightarrow> Inr (OpenApp appname))
         | _ \<Rightarrow> Inl IndexError)
      else launch_key prefixes text)"

definition weather_city :: "string \<Rightarrow> intent" where
  "weather_city text =
     (let words = split text
      in if ''in'' \<in> set words then
           (case index words ''in'' of
              None \<Rightarrow> WeatherMissingCity
            | Some idx \<Rightarrow>
                (let city = join (drop (idx + 1) words)
                 in if city \<noteq> [] then Weather city else WeatherMissingCity))
         else WeatherMissingCity)"

definition classify :: "string \<Rightarrow> error + intent" where
  "classify text =
     (if contains text ''hello'' \<or> contains text ''hi'' \<or> contains text ''hey'' then Inr Greet
      else if contains text ''time'' then Inr TellTime
      else if contains text ''date'' \<or> contains text ''day'' then Inr TellDate
      else if startswith text ''open '' then
        (let target = strip (replace text ''open '' [])
         in case map_of quick target of
              Some site \<Rightarrow> Inr (OpenWebsite site)
            | None \<Rightarrow> Inr (OpenWebsite target))
      else if contains text ''launch '' \<or> contains text ''open app ''
              \<or> contains text ''open application'' then
        launch_key [''launch '', ''open app '', ''open application ''] text
      else if startswith text ''who is '' \<or> startswith text ''what is ''
              \<or> startswith text ''tell me about '' then
        Inr (Encyclopedia (strip (replace (replace (replace text ''who is '' []) ''what is '' [])
                                    ''tell me about '' [])))
      else if contains text ''weather'' then Inr (weather_city text)
      else if contains text ''send email'' \<or> contains text ''send an email'' then Inr ComposeEmail
      else if contains text ''quit'' \<or> contains text ''exit'' \<or> contains text ''shutdown''
              \<or> contains text ''stop assistant'' \<or> contains text ''goodbye'' then Inr Exit
      else Inr (Unrecognized text))"

text \<open>What each branch then does.\<close>

definition run_intent :: "intent \<Rightarrow> world \<Rightarrow> status \<times> world" where
  "run_intent i w =
     (case i of
        Greet \<Rightarrow> (Returned, speak ''Hello! How can I help you?'' w)
      | TellTime \<Rightarrow> (Returned, tell_time w)
      | TellDate \<Rightarrow> (Returned, tell_date w)
      | OpenWebsite target \<Rightarrow> (Returned, open_website target w)
      | OpenApp app_key \<Rightarrow> open_app app_key w
      | OpenAppNoPrefix \<Rightarrow> (Returned, w)
      | Encyclopedia topic \<Rightarrow> (Returned, search_wikipedia topic w)
      | Weather city \<Rightarrow> (Returned, get_weather city w)
      | WeatherMissingCity \<Rightarrow>
          (Returned, speak ''Please include the city after 'in', e.g. 'weather in Delhi'.'' w)
      | ComposeEmail \<Rightarrow> (Returned, email_branch w)
      | Exit \<Rightarrow> (Exited 0, speak ''Goodbye!'' w)
      | Unrecognized text \<Rightarrow>
          (Returned,
           emit (WebbrowserOpen (''https://www.google.com/search?q='' @ replace text '' '' ''+''))
             (speak (''I didn't catch a command. I can search the web or Wikipedia. ''
                     @ ''Searching the web for your phrase.'') w)))"

definition dispatch :: "error + intent \<Rightarrow> world \<Rightarrow> status \<times> world" where
  "dispatch r w = (case r of Inl e \<Rightarrow> (Raised e, w) | Inr i \<Rightarrow> run_intent i w)"

section \<open>Which rule an utterance reaches\<close>

text \<open>The guards of the chain, in the order of the source.\<close>

definition rule_greet :: "string \<Rightarrow> bool" where
  "rule_greet text = (contains text ''hello'' \<or> contains text ''hi'' \<or> contains text ''hey'')"

definition rule_time :: "string \<Rightarrow> bool" where
  "rule_time text = contains text ''time''"

definition rule_date :: "string \<Rightarrow> bool" where
  "rule_date text = (contains text ''date'' \<or> contains text ''day'')"

definition rule_open_website :: "string \<Rightarrow> bool" where
  "rule_open_website text = startswith text ''open ''"

definition rule_open_app :: "string \<Rightarrow> bool" where
  "rule_open_app text = (contains text ''launch '' \<or> contains text ''open app ''
                          \<or> contains text ''open application'')"

definition rule_wikipedia :: "string \<Rightarrow> bool" where
  "rule_wikipedia text = (startswith text ''who is '' \<or> startswith text ''what is ''
                           \<or> startswith text ''tell me about '')"

definition rule_weather :: "string \<Rightarrow> bool" where
  "rule_weather text = contains text ''weather''"

definition rule_email :: "string \<Rightarrow> bool" where
  "rule_email text = (contains text ''send email'' \<or> contains text ''send an email'')"

definition rule_exit :: "string \<Rightarrow> bool" where
  "rule_exit text = (contains text ''quit'' \<or> contains text ''exit'' \<or> contains text ''shutdown''
                      \<or> contains text ''stop assistant'' \<or> contains text ''goodbye'')"

definition reaches_weather :: "string \<Rightarrow> bool" where
  "reaches_weather text =
     (\<not> rule_greet text \<and> \<not> rule_time text \<and> \<not> rule_date text \<and> \<not> rule_open_website text
      \<and> \<not> rule_open_app text \<and> \<not> rule_wikipedia text \<and> rule_weather text)"

definition reaches_email :: "string \<Rightarrow> bool" where
  "reaches_email text =
     (\<not> rule_greet text \<and> \<not> rule_time text \<and> \<not> rule_date text \<and> \<not> rule_open_website text
      \<and> \<not> rule_open_app text \<and> \<not> rule_wikipedia text \<and> \<not> rule_weather text
      \<and> rule_email text)"

definition reaches_exit :: "string \<Rightarrow> bool" where
  "reaches_exit text =
     (\<not> rule_greet text \<and> \<not> rule_time text \<and> \<not> rule_date text \<and> \<not> rule_open_website text
      \<and> \<not> rule_open_app text \<and> \<not> rule_wikipedia text \<and> \<not> rule_weather text
      \<and> \<not> rule_email text \<and> rule_exit text)"

section \<open>Observing a turn\<close>

text \<open>
  \<open>events_since w w'\<close> are the events that a run from \<open>w\<close> to \<open>w'\<close> added, and \<open>sends\<close> are
  the calls of \<open>send_email\<close> among some events.
\<close>

definition events_since :: "world \<Rightarrow> world \<Rightarrow> event list" where
  "events_since w w' = drop (length (trace w)) (trace w')"

fun is_send :: "event \<Rightarrow> bool" where
  "is_send (SendEmail to_addr subject body) = True"
| "is_send _ = False"

definition sends :: "event list \<Rightarrow> event list" where
  "sends evs = filter is_send evs"

text \<open>
  A world for running examples: a Linux machine on which processes start, with \<open>script\<close> as
  what the microphone hears, nothing after the script, and no event so far.
\<close>

definition hearing :: "string option list \<Rightarrow> world" where
  "hearing script =
     \<lparr>heard = (\<lambda>k. if k < length script then script ! k else None),
      listened = 0,
      clock_time = ''09:30 AM'',
      clock_date = ''Monday, January 01, 2024'',
      platform = ''linux'',
      popen_fails = False,
      call_fails = None,
      trace = []\<rparr>"

section \<open>The turn is the dispatch of the classification\<close>

lemma if_branches: "x = u \<Longrightarrow> y = v \<Longrightarrow> (if b then x else y) = (if b then u else v)"
  by simp

lemma launch_loop_dispatch: "launch_loop prefixes s w = dispatch (launch_key prefixes s) w"
  by (induction prefixes) (auto simp: dispatch_def run_intent_def split: list.splits)

lemma weather_branch_dispatch:
  "(Returned, weather_branch s w) = dispatch (Inr (weather_city s)) w"
  by (simp add: weather_branch_def weather_city_def dispatch_def run_intent_def
        Let_def split: option.splits)

lemma parse_and_execute_dispatch:
  "parse_and_execute (Some s) w = dispatch (classify s) w"
  unfolding parse_and_execute_def classify_def option.case
  apply (simp only: if_distrib [where f = "\<lambda>r. dispatch r w"])
  apply (intro if_branches)
           apply (simp_all only: launch_loop_dispatch weather_branch_dispatch)
         apply (simp_all add: dispatch_def run_intent_def Let_def split: option.splits)
  done

lemmas rule_defs = rule_greet_def rule_time_def rule_date_def rule_open_website_def
  rule_open_app_def rule_wikipedia_def rule_weather_def rule_email_def rule_exit_def

section \<open>Prefixes and substrings\<close>

text \<open>\<open>startswith\<close> and \<open>contains\<close> are the prefix and the substring relation.\<close>

lemma startswith_iff: "startswith s p = (\<exists>post. s = p @ post)"
  by (induction s p rule: startswith.induct) auto

lemma contains_iff: "contains s sub = (\<exists>pre post. s = pre @ sub @ post)"
proof (induction s)
  case Nil
  then show ?case by auto
next
  case (Cons c cs)
  have "(\<exists>pre post. c # cs = pre @ sub @ post)
        = ((\<exists>post. c # cs = sub @ post) \<or> (\<exists>pre post. cs = pre @ sub @ post))"
    by (auto simp: Cons_eq_append_conv)
  with Cons show ?case by (simp add: startswith_iff del: startswith.simps)
qed

section \<open>Tokens\<close>

lemma split_from_nonempty: "[] \<notin> set (split_from cur s)"
  by (induction s arbitrary: cur) auto

lemma split_nonempty: "[] \<notin> set (split s)"
  by (simp add: split_def split_from_nonempty)

lemma join_eq_Nil: "[] \<notin> set ws \<Longrightarrow> (join ws = []) = (ws = [])"
  by (induction ws rule: join.induct) auto

lemma index_first: "x \<notin> set pre \<Longrightarrow> index (pre @ x # post) x = Some (length pre)"
  by (induction pre) auto

section \<open>The weather rule\<close>

text \<open>
  C1, as the claim states it, fails: the city is what follows the FIRST token \<open>in\<close>
  (\<open>words.index\<close>), not the last one. In "weather in paris in texas" the tokens after the
  last \<open>in\<close> are "texas", and the code asks for the weather of "paris in texas".
\<close>

theorem weather_city_counterexample:
  "reaches_weather ''weather in paris in texas''
   \<and> split ''weather in paris in texas'' = [''weather'', ''in'', ''paris''] @ ''in'' # [''texas'']
   \<and> ''in'' \<notin> set [''texas'']
   \<and> classify ''weather in paris in texas'' = Inr (Weather ''paris in texas'')
   \<and> parse_and_execute (Some ''weather in paris in texas'') (hearing [])
       = (Returned, get_weather ''paris in texas'' (hearing []))
   \<and> ''paris in texas'' \<noteq> join [''texas'']"
  by (simp add: reaches_weather_def rule_defs classify_def parse_and_execute_def
      weather_city_def weather_branch_def split_def isspace_def)

text \<open>
  C1, amended: for every utterance that reaches the weather rule, the city is the tokens
  after the first token \<open>in\<close>, joined by single spaces. With at least one token after it the
  turn calls \<open>get_weather\<close> with that city; with no token \<open>in\<close>, or none after the first one,
  the turn speaks the corrective prompt and searches nothing.
\<close>

theorem weather_city_after_first_in:
  "reaches_weather t \<Longrightarrow>
     (''in'' \<notin> set (split t) \<longrightarrow>
        classify t = Inr WeatherMissingCity
        \<and> parse_and_execute (Some t) w
            = (Returned, speak ''Please include the city after 'in', e.g. 'weather in Delhi'.'' w))
     \<and> (split t = pre @ [''in''] \<and> ''in'' \<notin> set pre \<longrightarrow>
        classify t = Inr WeatherMissingCity
        \<and> parse_and_execute (Some t) w
            = (Returned, speak ''Please include the city after 'in', e.g. 'weather in Delhi'.'' w))
     \<and> (split t = pre @ ''in'' # post \<and> ''in'' \<notin> set pre \<and> post \<noteq> [] \<longrightarrow>
        classify t = Inr (Weather (join post))
        \<and> parse_and_execute (Some t) w = (Returned, get_weather (join post) w))"
proof -
  assume r: "reaches_weather t"
  then have c: "classify t = Inr (weather_city t)"
    by (simp add: classify_def reaches_weather_def rule_defs)
  have p: "parse_and_execute (Some t) w = run_intent (weather_city t) w"
    by (simp add: parse_and_execute_dispatch c dispatch_def)
  have missing: "run_intent WeatherMissingCity w
      = (Returned, speak ''Please include the city after 'in', e.g. 'weather in Delhi'.'' w)"
    by (simp add: run_intent_def)
  have a1: "weather_city t = WeatherMissingCity" if "''in'' \<notin> set (split t)"
    using that by (simp add: weather_city_def)
  have a2: "weather_city t = WeatherMissingCity"
    if "split t = pre @ [''in'']" "''in'' \<notin> set pre"
    using that by (simp add: weather_city_def index_first)
  have a3: "weather_city t = Weather (join post)"
    if s: "split t = pre @ ''in'' # post" and n: "''in'' \<notin> set pre" and "post \<noteq> []"
  proof -
    have "[] \<notin> set post" using split_nonempty [of t] s by auto
    then have "join post \<noteq> []" using \<open>post \<noteq> []\<close> by (simp add: join_eq_Nil)
    then show ?thesis using s n by (simp add: weather_city_def index_first)
  qed
  show ?thesis
    using a1 a2 a3 by (auto simp: c p missing run_intent_def)
qed

theorem weather_city_after_first_in_witness:
  "reaches_weather ''weather in new york''
   \<and> split ''weather in new york'' = [''weather''] @ ''in'' # [''new'', ''york'']
   \<and> classify ''weather in new york'' = Inr (Weather ''new york'')
   \<and> parse_and_execute (Some ''weather in new york'') (hearing [])
       = (Returned, get_weather ''new york'' (hearing []))
   \<and> reaches_weather ''weather'' \<and> ''in'' \<notin> set (split ''weather'')
   \<and> classify ''weather'' = Inr WeatherMissingCity
   \<and> parse_and_execute (Some ''weather'') (hearing [])
       = (Returned,
          speak ''Please include the city after 'in', e.g. 'weather in Delhi'.'' (hearing []))"
proof -
  have a: "reaches_weather ''weather in new york''" and b: "reaches_weather ''weather''"
    by (simp_all add: reaches_weather_def rule_defs)
  have s: "split ''weather in new york'' = [''weather''] @ ''in'' # [''new'', ''york'']"
    and n: "''in'' \<notin> set (split ''weather'')"
    by (simp_all add: split_def isspace_def)
  show ?thesis
    using a b s n
      weather_city_after_first_in [OF a, of "hearing []" "[''weather'']" "[''new'', ''york'']"]
      weather_city_after_first_in [OF b, of "hearing []" "[]" "[]"]
    by simp
qed

section \<open>The open-application rule\<close>

text \<open>
  C2 fails on the code. "please open application" passes the guard of the branch through
  \<open>"open application"\<close>, but the loop looks for \<open>"open application "\<close> with a trailing blank,
  finds no prefix and the turn ends without a word. "launch " passes the guard and the
  loop, and \<open>split()[0]\<close> raises IndexError on the empty list of tokens, which nothing
  catches. \<open>open_app\<close> itself would have turned the empty key down with its "no mapping"
  response.
\<close>

theorem open_app_without_key_fails:
  "\<not> rule_greet ''please open application'' \<and> \<not> rule_time ''please open application''
   \<and> \<not> rule_date ''please open application'' \<and> \<not> rule_open_website ''please open application''
   \<and> rule_open_app ''please open application''
   \<and> classify ''please open application'' = Inr OpenAppNoPrefix
   \<and> parse_and_execute (Some ''please open application'') (hearing []) = (Returned, hearing [])
   \<and> rule_open_app ''launch ''
   \<and> classify ''launch '' = Inl IndexError
   \<and> parse_and_execute (Some ''launch '') (hearing []) = (Raised IndexError, hearing [])
   \<and> open_app [] (hearing [])
       = (Returned,
          speak ''I don't have a mapping for . You can add it to the apps dict.'' (hearing []))"
  by (simp add: rule_defs classify_def parse_and_execute_def strip_def split_def isspace_def
      open_app_def apps_def)

section \<open>Opening a website\<close>

text \<open>
  C7, as the claim states it, fails: the test is \<open>startswith("http")\<close>, not the presence of
  a scheme. "httpbin.org" carries no scheme and is opened as it is; "ftp://example.org"
  carries one and is opened as "https://ftp://example.org".
\<close>

theorem open_website_counterexample:
  "classify ''open httpbin.org'' = Inr (OpenWebsite ''httpbin.org'')
   \<and> parse_and_execute (Some ''open httpbin.org'') (hearing [])
       = (Returned, emit (WebbrowserOpen ''httpbin.org'') (speak ''Opening httpbin.org'' (hearing [])))
   \<and> \<not> contains ''httpbin.org'' ''://''
   \<and> classify ''open ftp://example.org'' = Inr (OpenWebsite ''ftp://example.org'')
   \<and> parse_and_execute (Some ''open ftp://example.org'') (hearing [])
       = (Returned, emit (WebbrowserOpen ''https://ftp://example.org'')
                      (speak ''Opening https://ftp://example.org'' (hearing [])))"
  by (simp add: classify_def parse_and_execute_def strip_def isspace_def quick_def
      open_website_def Let_def)

text \<open>
  C7, amended: "open youtube" opens the website "youtube.com" and "open example.org" opens
  "example.org"; when a website is opened, a target that does not start with "http" is
  prefixed with "https://", and a target that starts with "http" is opened unchanged.
\<close>

theorem open_website_http_prefix:
  "classify ''open youtube'' = Inr (OpenWebsite ''youtube.com'')
   \<and> classify ''open example.org'' = Inr (OpenWebsite ''example.org'')
   \<and> parse_and_execute (Some ''open youtube'') w = (Returned, open_website ''youtube.com'' w)
   \<and> parse_and_execute (Some ''open example.org'') w = (Returned, open_website ''example.org'' w)
   \<and> (\<not> startswith url ''http'' \<longrightarrow>
        open_website url w
          = emit (WebbrowserOpen (''https://'' @ url)) (speak (''Opening https://'' @ url) w))
   \<and> (startswith url ''http'' \<longrightarrow>
        open_website url w = emit (WebbrowserOpen url) (speak (''Opening '' @ url) w))"
  by (simp add: classify_def parse_and_execute_def strip_def isspace_def quick_def
      open_website_def Let_def)

theorem open_website_http_prefix_witness:
  "\<not> startswith ''youtube.com'' ''http''
   \<and> parse_and_execute (Some ''open youtube'') (hearing [])
       = (Returned, emit (WebbrowserOpen ''https://youtube.com'')
                      (speak ''Opening https://youtube.com'' (hearing [])))
   \<and> startswith ''http://example.org'' ''http''
   \<and> open_website ''http://example.org'' (hearing [])
       = emit (WebbrowserOpen ''http://example.org'') (speak ''Opening http://example.org'' (hearing []))"
  using open_website_http_prefix [of "hearing []" "''youtube.com''"]
    open_website_http_prefix [of "hearing []" "''http://example.org''"]
  by (simp add: open_website_def Let_def)

section \<open>Exit keywords\<close>

text \<open>
  C6, as the claim states it, fails: an earlier rule wins. "hello and goodbye" contains
  the exit keyword "goodbye" and is a greeting; the process does not exit.
\<close>

theorem exit_keyword_counterexample:
  "contains ''hello and goodbye'' ''goodbye''
   \<and> rule_exit ''hello and goodbye''
   \<and> classify ''hello and goodbye'' = Inr Greet
   \<and> classify ''hello and goodbye'' \<noteq> Inr Exit
   \<and> parse_and_execute (Some ''hello and goodbye'') (hearing [])
       = (Returned, speak ''Hello! How can I help you?'' (hearing []))"
  by (simp add: classify_def parse_and_execute_def rule_exit_def)

text \<open>
  C6, amended: every utterance that contains an exit keyword and matches none of the
  earlier rules (greeting, time, date, open website, open application, encyclopedia,
  weather, email) is classified as \<open>Exit\<close>: the turn says goodbye and exits with code 0.
\<close>

theorem exit_when_no_earlier_rule:
  "reaches_exit t \<Longrightarrow>
     classify t = Inr Exit
     \<and> parse_and_execute (Some t) w = (Exited 0, speak ''Goodbye!'' w)"
  by (simp add: classify_def parse_and_execute_def reaches_exit_def rule_defs)

theorem exit_when_no_earlier_rule_witness:
  "reaches_exit ''goodbye, open youtube''
   \<and> classify ''goodbye, open youtube'' = Inr Exit
   \<and> parse_and_execute (Some ''goodbye, open youtube'') (hearing [])
       = (Exited 0, speak ''Goodbye!'' (hearing []))"
proof -
  have a: "reaches_exit ''goodbye, open youtube''"
    by (simp add: reaches_exit_def rule_defs)
  show ?thesis
    using a exit_when_no_earlier_rule [OF a, of "hearing []"] by simp
qed

section \<open>No utterance\<close>

text \<open>
  C8, as the claim states it, fails for the empty utterance: only \<open>None\<close> is turned away.
  The empty string matches no rule, is treated as unrecognized and starts the web search.
\<close>

theorem empty_utterance_counterexample:
  "classify [] = Inr (Unrecognized [])
   \<and> parse_and_execute (Some []) (hearing [])
       = (Returned,
          emit (WebbrowserOpen ''https://www.google.com/search?q='')
            (speak (''I didn't catch a command. I can search the web or Wikipedia. ''
                    @ ''Searching the web for your phrase.'') (hearing [])))"
  by (simp add: classify_def parse_and_execute_def)

text \<open>
  C8, amended: for an absent utterance (\<open>None\<close>) no rule is tried and the turn does
  nothing: it returns at once and leaves the world as it was.
\<close>

theorem absent_utterance_noop: "parse_and_execute None w = (Returned, w)"
  by (simp add: parse_and_execute_def)

theorem absent_utterance_noop_witness:
  "parse_and_execute None (hearing []) = (Returned, hearing [])
   \<and> events_since (hearing []) (snd (parse_and_execute None (hearing []))) = []"
  using absent_utterance_noop [of "hearing []"] by (simp add: events_since_def)

section \<open>Greetings\<close>

text \<open>
  C10: an utterance that contains "hello", "hi" or "hey" anywhere, also inside a word, is
  a greeting, whatever later rule it would match: "weather in chicago" and
  "tell me about history" both contain "hi".
\<close>

theorem greeting_preempts_later_rules:
  "contains t ''hello'' \<or> contains t ''hi'' \<or> contains t ''hey'' \<Longrightarrow>
     classify t = Inr Greet
     \<and> parse_and_execute (Some t) w = (Returned, speak ''Hello! How can I help you?'' w)"
  by (simp add: classify_def parse_and_execute_def)

theorem greeting_preempts_later_rules_witness:
  "contains ''weather in chicago'' ''hi'' \<and> rule_weather ''weather in chicago''
   \<and> classify ''weather in chicago'' = Inr Greet
   \<and> parse_and_execute (Some ''weather in chicago'') (hearing [])
       = (Returned, speak ''Hello! How can I help you?'' (hearing []))
   \<and> contains ''tell me about history'' ''hi'' \<and> rule_wikipedia ''tell me about history''
   \<and> classify ''tell me about history'' = Inr Greet
   \<and> parse_and_execute (Some ''tell me about history'') (hearing [])
       = (Returned, speak ''Hello! How can I help you?'' (hearing []))"
proof -
  have a: "contains ''weather in chicago'' ''hello'' \<or> contains ''weather in chicago'' ''hi''
           \<or> contains ''weather in chicago'' ''hey''" by simp
  have b: "contains ''tell me about history'' ''hello'' \<or> contains ''tell me about history'' ''hi''
           \<or> contains ''tell me about history'' ''hey''" by simp
  have c: "contains ''weather in chicago'' ''hi''" "rule_weather ''weather in chicago''"
          "contains ''tell me about history'' ''hi''" "rule_wikipedia ''tell me about history''"
    by (simp_all add: rule_weather_def rule_wikipedia_def)
  show ?thesis
    using greeting_preempts_later_rules [OF a, of "hearing []"]
      greeting_preempts_later_rules [OF b, of "hearing []"] c
    by simp
qed

section \<open>The email dialogue\<close>

text \<open>
  A turn that reaches the email rule is the email branch, and the branch adds these events:
  the prompt and the listen for each slot, then either the call of \<open>send_email\<close> or the
  word that the email is cancelled.
\<close>

lemma reaches_email_turn:
  "reaches_email t \<Longrightarrow> parse_and_execute (Some t) w = (Returned, email_branch w)"
  by (simp add: parse_and_execute_def reaches_email_def rule_defs)

lemma email_branch_events:
  "events_since w (email_branch w) =
     (if \<not> truthy (heard w (listened w)) then
        [Speak ''Who is the recipient? Please say the email address.'', Listen 8 6,
         Speak ''Recipient not provided. Cancelling.'']
      else
        [Speak ''Who is the recipient? Please say the email address.'', Listen 8 6,
         Speak ''What is the subject?'', Listen 8 8,
         Speak ''Tell me the message.'', Listen 12 20,
         Speak (''Sending email to '' @ or_else (heard w (listened w)) [] @ '' with subject ''
                @ or_else (heard w (listened w + 1)) ''No subject''
                @ ''. Confirm by saying yes.''),
         Listen 5 3,
         (if says_yes (heard w (listened w + 3))
          then SendEmail (or_else (heard w (listened w)) [])
                 (or_else (heard w (listened w + 1)) ''No subject'')
                 (or_else (heard w (listened w + 2)) [])
          else Speak ''Email cancelled.'')])"
  by (simp add: email_branch_def listen_def speak_def emit_def send_email_def events_since_def
      Let_def split_def numeral_3_eq_3 numeral_2_eq_2)

lemma email_events_of_turn:
  "reaches_email t \<Longrightarrow>
     fst (parse_and_execute (Some t) w) = Returned
     \<and> events_since w (snd (parse_and_execute (Some t) w)) = events_since w (email_branch w)"
  by (simp add: reaches_email_turn)

lemma says_yes_iff: "says_yes conf = (\<exists>c. conf = Some c \<and> contains c ''yes'')"
  by (cases conf) (auto simp: says_yes_def)

text \<open>
  C3: when the four calls of \<open>listen\<close> return "a@b.com", "hi", "test body" and "yes", the
  turn ends with the one call \<open>send_email("a@b.com", "hi", "test body")\<close>. In every email
  conversation \<open>send_email\<close> is called at most once, and when it is called, the fourth
  listen (the confirmation) returned a text that contains "yes", and the call is the last
  event, right after that listen.
\<close>

theorem email_sent_once_after_yes:
  "fst (parse_and_execute (Some ''send email'')
          (hearing [Some ''a@b.com'', Some ''hi'', Some ''test body'', Some ''yes''])) = Returned
   \<and> events_since (hearing [Some ''a@b.com'', Some ''hi'', Some ''test body'', Some ''yes''])
        (snd (parse_and_execute (Some ''send email'')
               (hearing [Some ''a@b.com'', Some ''hi'', Some ''test body'', Some ''yes''])))
       = [Speak ''Who is the recipient? Please say the email address.'', Listen 8 6,
          Speak ''What is the subject?'', Listen 8 8,
          Speak ''Tell me the message.'', Listen 12 20,
          Speak ''Sending email to a@b.com with subject hi. Confirm by saying yes.'',
          Listen 5 3,
          SendEmail ''a@b.com'' ''hi'' ''test body'']
   \<and> (reaches_email t \<longrightarrow>
        length (sends (events_since w (snd (parse_and_execute (Some t) w)))) \<le> 1
        \<and> (sends (events_since w (snd (parse_and_execute (Some t) w))) \<noteq> [] \<longrightarrow>
             (\<exists>c. heard w (listened w + 3) = Some c \<and> contains c ''yes'')
             \<and> (\<exists>pre e. events_since w (snd (parse_and_execute (Some t) w))
                            = pre @ [Listen 5 3, e]
                          \<and> is_send e \<and> sends pre = [])))"
proof -
  have r: "reaches_email ''send email''"
    by (simp add: reaches_email_def rule_defs)
  have concrete: "events_since (hearing [Some ''a@b.com'', Some ''hi'', Some ''test body'', Some ''yes''])
        (email_branch (hearing [Some ''a@b.com'', Some ''hi'', Some ''test body'', Some ''yes'']))
       = [Speak ''Who is the recipient? Please say the email address.'', Listen 8 6,
          Speak ''What is the subject?'', Listen 8 8,
          Speak ''Tell me the message.'', Listen 12 20,
          Speak ''Sending email to a@b.com with subject hi. Confirm by saying yes.'',
          Listen 5 3,
          SendEmail ''a@b.com'' ''hi'' ''test body'']"
    by (simp add: email_branch_events hearing_def truthy_def or_else_def says_yes_def)
  have general: "length (sends (events_since w (email_branch w))) \<le> 1
        \<and> (sends (events_since w (email_branch w)) \<noteq> [] \<longrightarrow>
             (\<exists>c. heard w (listened w + 3) = Some c \<and> contains c ''yes'')
             \<and> (\<exists>pre e. events_since w (email_branch w) = pre @ [Listen 5 3, e]
                          \<and> is_send e \<and> sends pre = []))"
  proof (cases "truthy (heard w (listened w))")
    case False
    then show ?thesis by (simp add: email_branch_events sends_def)
  next
    case True
    show ?thesis
    proof (cases "says_yes (heard w (listened w + 3))")
      case no: False
      with True show ?thesis by (simp add: email_branch_events sends_def)
    next
      case yes: True
      let ?pre = "[Speak ''Who is the recipient? Please say the email address.'', Listen 8 6,
         Speak ''What is the subject?'', Listen 8 8,
         Speak ''Tell me the message.'', Listen 12 20,
         Speak (''Sending email to '' @ or_else (heard w (listened w)) [] @ '' with subject ''
                @ or_else (heard w (listened w + 1)) ''No subject''
                @ ''. Confirm by saying yes.'')]"
      let ?e = "SendEmail (or_else (heard w (listened w)) [])
                 (or_else (heard w (listened w + 1)) ''No subject'')
                 (or_else (heard w (listened w + 2)) [])"
      have ev: "events_since w (email_branch w) = ?pre @ [Listen 5 3, ?e]"
        using True yes by (simp add: email_branch_events)
      have "is_send ?e" "sends ?pre = []" by (simp_all add: sends_def)
      with ev have ex: "\<exists>pre e. events_since w (email_branch w) = pre @ [Listen 5 3, e]
                          \<and> is_send e \<and> sends pre = []" by blast
      have one: "length (sends (events_since w (email_branch w))) \<le> 1"
        by (simp only: ev) (simp add: sends_def)
      from yes have "\<exists>c. heard w (listened w + 3) = Some c \<and> contains c ''yes''"
        by (simp add: says_yes_iff)
      with ex one show ?thesis by blast
    qed
  qed
  show ?thesis
    using email_events_of_turn [OF r] concrete general
    by (simp add: email_events_of_turn)
qed

theorem email_sent_once_after_yes_witness:
  "reaches_email ''send an email''
   \<and> sends (events_since (hearing [Some ''a@b.com'', None, None, Some ''yes please''])
        (snd (parse_and_execute (Some ''send an email'')
               (hearing [Some ''a@b.com'', None, None, Some ''yes please'']))))
       = [SendEmail ''a@b.com'' ''No subject'' []]
   \<and> heard (hearing [Some ''a@b.com'', None, None, Some ''yes please''])
        (listened (hearing [Some ''a@b.com'', None, None, Some ''yes please'']) + 3)
       = Some ''yes please''
   \<and> contains ''yes please'' ''yes''"
proof -
  have r: "reaches_email ''send an email''"
    by (simp add: reaches_email_def rule_defs)
  have s: "sends (events_since (hearing [Some ''a@b.com'', None, None, Some ''yes please''])
        (snd (parse_and_execute (Some ''send an email'')
               (hearing [Some ''a@b.com'', None, None, Some ''yes please'']))))
       = [SendEmail ''a@b.com'' ''No subject'' []]"
    by (simp add: reaches_email_turn [OF r] email_branch_events hearing_def truthy_def
        or_else_def says_yes_def sends_def)
  show ?thesis
    using r s
      email_sent_once_after_yes [of "''send an email''"
        "hearing [Some ''a@b.com'', None, None, Some ''yes please'']"]
    by (simp add: hearing_def)
qed

text \<open>
  C4: once the recipient is captured, so that the dialogue gets to its confirmation step,
  a confirmation that is a timeout (\<open>None\<close>) or a text without "yes" ends the conversation
  with "Email cancelled." and \<open>send_email\<close> is never called.
\<close>

theorem email_cancelled_without_yes:
  "reaches_email t \<Longrightarrow> heard w (listened w) = Some to_addr \<Longrightarrow> to_addr \<noteq> [] \<Longrightarrow>
   heard w (listened w + 3) = None
     \<or> (\<exists>c. heard w (listened w + 3) = Some c \<and> \<not> contains c ''yes'') \<Longrightarrow>
     fst (parse_and_execute (Some t) w) = Returned
     \<and> events_since w (snd (parse_and_execute (Some t) w))
         = [Speak ''Who is the recipient? Please say the email address.'', Listen 8 6,
            Speak ''What is the subject?'', Listen 8 8,
            Speak ''Tell me the message.'', Listen 12 20,
            Speak (''Sending email to '' @ to_addr @ '' with subject ''
                   @ or_else (heard w (listened w + 1)) ''No subject''
                   @ ''. Confirm by saying yes.''),
            Listen 5 3,
            Speak ''Email cancelled.'']
     \<and> sends (events_since w (snd (parse_and_execute (Some t) w))) = []"
proof -
  assume r: "reaches_email t" and a: "heard w (listened w) = Some to_addr" "to_addr \<noteq> []"
    and c: "heard w (listened w + 3) = None
            \<or> (\<exists>c. heard w (listened w + 3) = Some c \<and> \<not> contains c ''yes'')"
  from c have no: "\<not> says_yes (heard w (listened w + 3))"
    by (auto simp: says_yes_def)
  from a have t: "truthy (heard w (listened w))" "or_else (heard w (listened w)) [] = to_addr"
    by (simp_all add: truthy_def or_else_def)
  show ?thesis
    using no t by (simp add: email_events_of_turn [OF r] email_branch_events sends_def)
qed

theorem email_cancelled_without_yes_witness:
  "reaches_email ''send email''
   \<and> events_since (hearing [Some ''a@b.com'', Some ''hi'', Some ''test body'', None])
        (snd (parse_and_execute (Some ''send email'')
               (hearing [Some ''a@b.com'', Some ''hi'', Some ''test body'', None])))
       = [Speak ''Who is the recipient? Please say the email address.'', Listen 8 6,
          Speak ''What is the subject?'', Listen 8 8,
          Speak ''Tell me the message.'', Listen 12 20,
          Speak ''Sending email to a@b.com with subject hi. Confirm by saying yes.'',
          Listen 5 3,
          Speak ''Email cancelled.'']
   \<and> sends (events_since (hearing [Some ''a@b.com'', Some ''hi'', Some ''test body'', Some ''no''])
        (snd (parse_and_execute (Some ''send email'')
               (hearing [Some ''a@b.com'', Some ''hi'', Some ''test body'', Some ''no''])))) = []"
proof -
  have r: "reaches_email ''send email''"
    by (simp add: reaches_email_def rule_defs)
  have h1: "heard (hearing [Some ''a@b.com'', Some ''hi'', Some ''test body'', None])
              (listened (hearing [Some ''a@b.com'', Some ''hi'', Some ''test body'', None]))
            = Some ''a@b.com''"
    and h2: "heard (hearing [Some ''a@b.com'', Some ''hi'', Some ''test body'', Some ''no''])
              (listened (hearing [Some ''a@b.com'', Some ''hi'', Some ''test body'', Some ''no'']))
            = Some ''a@b.com''"
    by (simp_all add: hearing_def)
  have n: "''a@b.com'' \<noteq> []" by simp
  have c1: "heard (hearing [Some ''a@b.com'', Some ''hi'', Some ''test body'', None])
              (listened (hearing [Some ''a@b.com'', Some ''hi'', Some ''test body'', None]) + 3)
            = None
            \<or> (\<exists>c. heard (hearing [Some ''a@b.com'', Some ''hi'', Some ''test body'', None])
              (listened (hearing [Some ''a@b.com'', Some ''hi'', Some ''test body'', None]) + 3)
                 = Some c \<and> \<not> contains c ''yes'')"
    by (simp add: hearing_def)
  have c2: "heard (hearing [Some ''a@b.com'', Some ''hi'', Some ''test body'', Some ''no''])
              (listened (hearing [Some ''a@b.com'', Some ''hi'', Some ''test body'', Some ''no'']) + 3)
            = None
            \<or> (\<exists>c. heard (hearing [Some ''a@b.com'', Some ''hi'', Some ''test body'', Some ''no''])
              (listened (hearing [Some ''a@b.com'', Some ''hi'', Some ''test body'', Some ''no'']) + 3)
                 = Some c \<and> \<not> contains c ''yes'')"
    by (simp add: hearing_def)
  show ?thesis
    using r email_cancelled_without_yes [OF r h1 n c1] email_cancelled_without_yes [OF r h2 n c2]
    by (simp add: hearing_def or_else_def sends_def)
qed

text \<open>
  C5: when the recipient listen returns nothing, the conversation is cancelled at once: no
  later slot is prompted and nothing is sent. When the subject listen returns nothing, the
  subject is "No subject" and the dialogue goes on to the body and the confirmation. When
  the body listen returns nothing, the body is the empty string and the dialogue goes on
  to the confirmation.
\<close>

theorem email_missing_slots:
  "reaches_email t \<Longrightarrow>
     (heard w (listened w) = None \<longrightarrow>
        events_since w (snd (parse_and_execute (Some t) w))
          = [Speak ''Who is the recipient? Please say the email address.'', Listen 8 6,
             Speak ''Recipient not provided. Cancelling.''])
     \<and> (heard w (listened w) = Some to_addr \<and> to_addr \<noteq> []
          \<and> heard w (listened w + 1) = None \<longrightarrow>
        events_since w (snd (parse_and_execute (Some t) w))
          = [Speak ''Who is the recipient? Please say the email address.'', Listen 8 6,
             Speak ''What is the subject?'', Listen 8 8,
             Speak ''Tell me the message.'', Listen 12 20,
             Speak (''Sending email to '' @ to_addr
                    @ '' with subject No subject. Confirm by saying yes.''),
             Listen 5 3,
             (if says_yes (heard w (listened w + 3))
              then SendEmail to_addr ''No subject'' (or_else (heard w (listened w + 2)) [])
              else Speak ''Email cancelled.'')])
     \<and> (heard w (listened w) = Some to_addr \<and> to_addr \<noteq> []
          \<and> heard w (listened w + 2) = None \<longrightarrow>
        events_since w (snd (parse_and_execute (Some t) w))
          = [Speak ''Who is the recipient? Please say the email address.'', Listen 8 6,
             Speak ''What is the subject?'', Listen 8 8,
             Speak ''Tell me the message.'', Listen 12 20,
             Speak (''Sending email to '' @ to_addr @ '' with subject ''
                    @ or_else (heard w (listened w + 1)) ''No subject''
                    @ ''. Confirm by saying yes.''),
             Listen 5 3,
             (if says_yes (heard w (listened w + 3))
              then SendEmail to_addr (or_else (heard w (listened w + 1)) ''No subject'') []
              else Speak ''Email cancelled.'')])"
proof -
  assume r: "reaches_email t"
  have a: "truthy (heard w (listened w)) \<and> or_else (heard w (listened w)) [] = to_addr"
    if "heard w (listened w) = Some to_addr" "to_addr \<noteq> []"
    using that by (simp add: truthy_def or_else_def)
  have n: "\<not> truthy None" "or_else None d = d" for d
    by (simp_all add: truthy_def or_else_def)
  show ?thesis
    using a by (auto simp: email_events_of_turn [OF r] email_branch_events n)
qed

theorem email_missing_slots_witness:
  "reaches_email ''send email''
   \<and> events_since (hearing [None])
        (snd (parse_and_execute (Some ''send email'') (hearing [None])))
       = [Speak ''Who is the recipient? Please say the email address.'', Listen 8 6,
          Speak ''Recipient not provided. Cancelling.'']
   \<and> events_since (hearing [Some ''a@b.com'', None, Some ''test body'', Some ''yes''])
        (snd (parse_and_execute (Some ''send email'')
               (hearing [Some ''a@b.com'', None, Some ''test body'', Some ''yes''])))
       = [Speak ''Who is the recipient? Please say the email address.'', Listen 8 6,
          Speak ''What is the subject?'', Listen 8 8,
          Speak ''Tell me the message.'', Listen 12 20,
          Speak ''Sending email to a@b.com with subject No subject. Confirm by saying yes.'',
          Listen 5 3,
          SendEmail ''a@b.com'' ''No subject'' ''test body'']
   \<and> events_since (hearing [Some ''a@b.com'', Some ''hi'', None, Some ''yes''])
        (snd (parse_and_execute (Some ''send email'')
               (hearing [Some ''a@b.com'', Some ''hi'', None, Some ''yes''])))
       = [Speak ''Who is the recipient? Please say the email address.'', Listen 8 6,
          Speak ''What is the subject?'', Listen 8 8,
          Speak ''Tell me the message.'', Listen 12 20,
          Speak ''Sending email to a@b.com with subject hi. Confirm by saying yes.'',
          Listen 5 3,
          SendEmail ''a@b.com'' ''hi'' []]"
proof -
  have r: "reaches_email ''send email''"
    by (simp add: reaches_email_def rule_defs)
  show ?thesis
    using r
      email_missing_slots [OF r, of "hearing [None]" "[]"]
      email_missing_slots [OF r, of "hearing [Some ''a@b.com'', None, Some ''test body'', Some ''yes'']"
        "''a@b.com''"]
      email_missing_slots [OF r, of "hearing [Some ''a@b.com'', Some ''hi'', None, Some ''yes'']"
        "''a@b.com''"]
    by (simp add: hearing_def or_else_def says_yes_def)
qed

end
